theory Spec2Isabelle
  imports Main
begin

section \<open>A fragment of the reactive library used by the sources\<close>

text \<open>
  \<^verbatim>\<open>setLoading.ts\<close> and \<^verbatim>\<open>StoriesService\<close> are written with the operators
  \<^verbatim>\<open>defer\<close>, \<^verbatim>\<open>finalize\<close>, \<^verbatim>\<open>timer\<close>, \<^verbatim>\<open>mapTo\<close>, \<^verbatim>\<open>tap\<close> and \<^verbatim>\<open>pipe\<close>.
  An observable pushes notifications to a subscriber: any number of \<open>Next\<close>, then at
  most one \<open>Error\<close> or \<open>Complete\<close>. The consumer may unsubscribe at any moment. What
  happens to one subscription over time is a list of signals, oldest first.
\<close>

datatype ('a, 'e) notification = Next 'a | Error 'e | Complete

datatype ('a, 'e) signal = Src "('a, 'e) notification" | Unsubscribe

text \<open>
  A subscriber is its three handlers and the teardown logic registered on it
  (\<^verbatim>\<open>subscriber.add(f)\<close>), run in registration order when the subscription closes.
  Handlers and teardowns act on the state \<open>'w\<close> of the program.
\<close>

record ('a, 'e, 'w) subscriber =
  on_next :: "'a \<Rightarrow> 'w \<Rightarrow> 'w"
  on_error :: "'e \<Rightarrow> 'w \<Rightarrow> 'w"
  on_complete :: "'w \<Rightarrow> 'w"
  finalizers :: "('w \<Rightarrow> 'w) list"

definition run_finalizers :: "('a, 'e, 'w) subscriber \<Rightarrow> 'w \<Rightarrow> 'w" where
  "run_finalizers sub w = fold (\<lambda>f. f) (finalizers sub) w"

text \<open>
  One signal reaching a subscription, whose state is the pair (closed, program state).
  A closed subscription ignores everything. A terminal notification is handed to the
  handler first; then the subscription closes and its teardowns run. Unsubscribing
  closes it and runs the teardowns without calling any handler.
\<close>

fun push :: "('a, 'e, 'w) subscriber \<Rightarrow> ('a, 'e) signal \<Rightarrow> bool \<times> 'w \<Rightarrow> bool \<times> 'w" where
  "push sub sg (True, w) = (True, w)"
| "push sub (Src (Next v)) (False, w) = (False, on_next sub v w)"
| "push sub (Src (Error e)) (False, w) = (True, run_finalizers sub (on_error sub e w))"
| "push sub (Src Complete) (False, w) = (True, run_finalizers sub (on_complete sub w))"
| "push sub Unsubscribe (False, w) = (True, run_finalizers sub w)"

text \<open>
  An observable is what subscribing to it does: given the subscriber, what the
  environment does during the subscription, and the state at \<^verbatim>\<open>subscribe\<close>, the state
  afterwards. Nothing happens before \<^verbatim>\<open>subscribe\<close>: building an observable is pure.
\<close>

type_synonym ('env, 'a, 'e, 'w) observable = "('a, 'e, 'w) subscriber \<Rightarrow> 'env \<Rightarrow> 'w \<Rightarrow> 'w"

text \<open>An arbitrary source: it pushes the notifications the signals say.\<close>

definition rx_source :: "(('a, 'e) signal list, 'a, 'e, 'w) observable" where
  "rx_source sub sigs w = snd (fold (push sub) sigs (False, w))"

text \<open>\<^verbatim>\<open>o.pipe(op)\<close>: the operator wraps the downstream subscriber.\<close>

definition rx_pipe ::
  "('env, 'a, 'e, 'w) observable \<Rightarrow> (('b, 'e, 'w) subscriber \<Rightarrow> ('a, 'e, 'w) subscriber)
     \<Rightarrow> ('env, 'b, 'e, 'w) observable" where
  "rx_pipe obs op = (\<lambda>sub. obs (op sub))"

text \<open>\<^verbatim>\<open>finalize(cb)\<close>: subscribes the source, then registers \<open>cb\<close> as a teardown.\<close>

definition rx_finalize :: "('w \<Rightarrow> 'w) \<Rightarrow> ('a, 'e, 'w) subscriber \<Rightarrow> ('a, 'e, 'w) subscriber" where
  "rx_finalize cb sub = sub\<lparr>finalizers := finalizers sub @ [cb]\<rparr>"

text \<open>
  \<^verbatim>\<open>defer(factory)\<close>: at each \<^verbatim>\<open>subscribe\<close> the factory runs (with its effects) and
  the subscriber is subscribed to the observable it returns.
\<close>

definition rx_defer ::
  "('w \<Rightarrow> ('env, 'a, 'e, 'w) observable \<times> 'w) \<Rightarrow> ('env, 'a, 'e, 'w) observable" where
  "rx_defer factory = (\<lambda>sub env w. case factory w of (obs, w') \<Rightarrow> obs sub env w')"

text \<open>\<^verbatim>\<open>mapTo(x)\<close>: every value becomes \<open>x\<close>.\<close>

definition rx_mapTo :: "'b \<Rightarrow> ('b, 'e, 'w) subscriber \<Rightarrow> ('a, 'e, 'w) subscriber" where
  "rx_mapTo x sub =
     \<lparr>on_next = (\<lambda>_. on_next sub x), on_error = on_error sub,
      on_complete = on_complete sub, finalizers = finalizers sub\<rparr>"

text \<open>\<^verbatim>\<open>tap(f)\<close>: runs \<open>f\<close> on each value, then hands the value downstream.\<close>

definition rx_tap :: "('a \<Rightarrow> 'w \<Rightarrow> 'w) \<Rightarrow> ('a, 'e, 'w) subscriber \<Rightarrow> ('a, 'e, 'w) subscriber" where
  "rx_tap f sub = sub\<lparr>on_next := (\<lambda>v w. on_next sub v (f v w))\<rparr>"

text \<open>
  \<^verbatim>\<open>timer(due)\<close>: once the due time has passed it emits 0 and completes. During a
  subscription either the timer fires or the consumer unsubscribes; whichever comes
  first closes the subscription. The delay itself is not modelled.
\<close>

datatype timer_event = Fires | Cancel

fun timer_signals :: "timer_event \<Rightarrow> (nat, 'e) signal list" where
  "timer_signals Fires = [Src (Next 0), Src Complete]"
| "timer_signals Cancel = [Unsubscribe]"

definition rx_timer :: "nat \<Rightarrow> (timer_event list, nat, 'e, 'w) observable" where
  "rx_timer due sub evs w = rx_source sub (concat (map timer_signals evs)) w"

section \<open>The state and the stores\<close>

text \<open>
  Everything observable is put on one timeline, oldest first: calls of the store's
  methods and notifications handed to the final subscriber.
\<close>

datatype ('a, 'e, 's) effect = SetLoadingCall bool | AddCall 's | Delivered "('a, 'e) notification"

record ('a, 'e, 's) world =
  loading :: bool
  timeline :: "('a, 'e, 's) effect list"

text \<open>
  A store object is the table of its methods. \<^verbatim>\<open>StoriesStore\<close> is an entity store, a
  subclass of \<^verbatim>\<open>Store\<close>, with \<^verbatim>\<open>add\<close>.
\<close>

record 'w Store =
  setLoading_m :: "bool \<Rightarrow> 'w \<Rightarrow> 'w"

record ('s, 'w) StoriesStore = "'w Store" +
  add_m :: "'s \<Rightarrow> 'w \<Rightarrow> 'w"

text \<open>
  Modelled from the spec: \<^verbatim>\<open>Store.setLoading\<close> of \<^verbatim>\<open>./store\<close>, which is not among the
  sources. The owner \<open>O\<close> exposes \<open>setLoading(boolean)\<close>, and calling it sets
  \<open>O.loading\<close> to the argument. Each call is put on the timeline.
\<close>

definition store_setLoading ::
  "bool \<Rightarrow> ('a, 'e, 's, 'm) world_scheme \<Rightarrow> ('a, 'e, 's, 'm) world_scheme" where
  "store_setLoading b w = w\<lparr>loading := b, timeline := timeline w @ [SetLoadingCall b]\<rparr>"

definition store :: "(('a, 'e, 's, 'm) world_scheme) Store" where
  "store = \<lparr>setLoading_m = store_setLoading\<rparr>"

text \<open>
  Modelled from the spec: \<^verbatim>\<open>StoriesStore\<close> of \<^verbatim>\<open>./stories.store\<close>, which is not among
  the sources. The state container is an external collaborator; of \<^verbatim>\<open>add\<close> only the
  call is kept, on the timeline.
\<close>

definition store_add ::
  "'s \<Rightarrow> ('a, 'e, 's, 'm) world_scheme \<Rightarrow> ('a, 'e, 's, 'm) world_scheme" where
  "store_add x w = w\<lparr>timeline := timeline w @ [AddCall x]\<rparr>"

definition storiesStore :: "('s, ('a, 'e, 's, 'm) world_scheme) StoriesStore" where
  "storiesStore = \<lparr>setLoading_m = store_setLoading, add_m = store_add\<rparr>"

text \<open>The final subscriber of a pipeline: it puts what it is handed on the timeline.\<close>

definition recorder :: "('a, 'e, ('a, 'e, 's, 'm) world_scheme) subscriber" where
  "recorder =
     \<lparr>on_next = (\<lambda>v w. w\<lparr>timeline := timeline w @ [Delivered (Next v)]\<rparr>),
      on_error = (\<lambda>e w. w\<lparr>timeline := timeline w @ [Delivered (Error e)]\<rparr>),
      on_complete = (\<lambda>w. w\<lparr>timeline := timeline w @ [Delivered Complete]\<rparr>),
      finalizers = []\<rparr>"

section \<open>The sources\<close>

text \<open>
  \<^verbatim>\<open>
  export function setLoading<T>(store: Store): MonoTypeOperatorFunction<T> {
    return function <T>(source: Observable<T>) {
      return defer(() => {
        store.setLoading(true);
        return source.pipe(finalize(() => store.setLoading(false)));
      });
    };
  }
  \<close>
\<close>

definition setLoading ::
  "('w, 'z) Store_scheme \<Rightarrow> ('env, 'a, 'e, 'w) observable \<Rightarrow> ('env, 'a, 'e, 'w) observable" where
  "setLoading st source =
     rx_defer (\<lambda>w. (rx_pipe source (rx_finalize (setLoading_m st False)), setLoading_m st True w))"

text \<open>
  \<^verbatim>\<open>
  add(story) {
    this.storiesStore.setLoading(true);
    return timer(1000)
      .pipe(mapTo(story))
      .pipe(
        tap((story) => {
          this.storiesStore.setLoading(false);
          this.storiesStore.add(story);
        })
      );
  }
  \<close>
  The method returns the observable and leaves the state changed by its first line.
  \<open>add_from\<close> is the method with the timer taken out, \<open>add\<close> the method itself.
\<close>

definition add_from ::
  "('env, 'n, 'e, 'w) observable \<Rightarrow> ('s, 'w, 'z) StoriesStore_scheme \<Rightarrow> 's \<Rightarrow> 'w
     \<Rightarrow> ('env, 's, 'e, 'w) observable \<times> 'w" where
  "add_from upstream sst story w =
     (rx_pipe (rx_pipe upstream (rx_mapTo story))
        (rx_tap (\<lambda>story w. add_m sst story (setLoading_m sst False w))),
      setLoading_m sst True w)"

definition add ::
  "('s, 'w, 'z) StoriesStore_scheme \<Rightarrow> 's \<Rightarrow> 'w \<Rightarrow> (timer_event list, 's, 'e, 'w) observable \<times> 'w" where
  "add sst story w = add_from (rx_timer 1000) sst story w"

text \<open>What a subscriber sees of a subscription, and whether the subscription has ended.\<close>

fun observed :: "('a, 'e) signal list \<Rightarrow> ('a, 'e) notification list" where
  "observed [] = []"
| "observed (Src (Next v) # rest) = Next v # observed rest"
| "observed (Src (Error e) # rest) = [Error e]"
| "observed (Src Complete # rest) = [Complete]"
| "observed (Unsubscribe # rest) = []"

fun exits :: "('a, 'e) signal list \<Rightarrow> bool" where
  "exits [] = False"
| "exits (Src (Next v) # rest) = exits rest"
| "exits (Src (Error e) # rest) = True"
| "exits (Src Complete # rest) = True"
| "exits (Unsubscribe # rest) = True"

text \<open>The notifications on a timeline, and what one subscription to the gate added to it.\<close>

fun delivered :: "('a, 'e, 's) effect list \<Rightarrow> ('a, 'e) notification list" where
  "delivered [] = []"
| "delivered (Delivered n # es) = n # delivered es"
| "delivered (SetLoadingCall b # es) = delivered es"
| "delivered (AddCall x # es) = delivered es"

definition gate_effects ::
  "('a, 'e) signal list \<Rightarrow> ('a, 'e, 's, 'm) world_scheme \<Rightarrow> ('a, 'e, 's) effect list" where
  "gate_effects sigs w =
     drop (length (timeline w)) (timeline (setLoading store rx_source recorder sigs w))"

section \<open>The paginator\<close>

text \<open>
  The sources hold the paginator's documentation and the component that drives it,
  \<^verbatim>\<open>
  this.pagination$ = this.paginatorRef.pageChanges.pipe(
    switchMap(( page ) => {
      const reqFn = () => this.contactsService.getPage({ page, perPage: 10 });
      return this.paginatorRef.getPage(reqFn);
    })
  );
  \<close>
  but not the plugin. Its parts are modelled from the specification.
\<close>

datatype error_kind = ValidationError | FetchError

text \<open>The raw server response: \<open>{ perPage, lastPage, currentPage, total?, data }\<close>.\<close>

record 'a raw_response =
  raw_data :: "'a list option"
  raw_perPage :: int
  raw_lastPage :: int
  raw_currentPage :: int
  raw_total :: "int option"

record 'a PageRecord =
  data :: "'a list"
  perPage :: int
  lastPage :: int
  currentPage :: int
  total_n :: int

text \<open>
  Modelled from the spec: the ResponseNormalizer of the paginator plugin, which is not
  among the sources. It fails with a validation error if \<open>data\<close> is absent or
  \<open>perPage\<close>/\<open>lastPage\<close> are not positive integers; otherwise the output is the
  PageRecord with \<open>total\<close> defaulted to \<open>perPage * lastPage\<close> when absent.
\<close>

definition normalizeResponse :: "'a raw_response \<Rightarrow> error_kind + 'a PageRecord" where
  "normalizeResponse r =
     (case raw_data r of
        None \<Rightarrow> Inl ValidationError
      | Some d \<Rightarrow>
          if raw_perPage r < 1 then Inl ValidationError
          else if raw_lastPage r < 1 then Inl ValidationError
          else Inr \<lparr>data = d, perPage = raw_perPage r, lastPage = raw_lastPage r,
                    currentPage = raw_currentPage r,
                    total_n = (case raw_total r of
                                 None \<Rightarrow> raw_perPage r * raw_lastPage r
                               | Some t \<Rightarrow> t)\<rparr>)"

text \<open>
  The configuration options \<open>pagesControls\<close>, \<open>range\<close> and \<open>startWith\<close>; \<open>window\<close>
  is the fixed window size the implementation chooses for the page controls.
\<close>

record config =
  pagesControls :: bool
  range_opt :: bool
  startWith :: int
  window :: nat

text \<open>
  The emitted pagination view: the record's fields, and \<open>pageControls\<close>, \<open>from\<close> and
  \<open>to\<close>, which are omitted when their computation is disabled.
\<close>

record 'a view =
  page_record :: "'a PageRecord"
  pageControls :: "int list option"
  from_v :: "int option"
  to_v :: "int option"

text \<open>
  Modelled from the spec: the range algorithm of the paginator plugin, which is not
  among the sources. \<open>from = (currentPage - 1) * perPage + 1\<close> (or 0 if
  \<open>total == 0\<close>); \<open>to = min(currentPage * perPage, total)\<close>.
\<close>

definition getFrom :: "'a PageRecord \<Rightarrow> int" where
  "getFrom p = (if total_n p = 0 then 0 else (currentPage p - 1) * perPage p + 1)"

definition getTo :: "'a PageRecord \<Rightarrow> int" where
  "getTo p = min (currentPage p * perPage p) (total_n p)"

text \<open>
  Modelled from the spec: the pageControls algorithm of the paginator plugin, which is
  not among the sources. Given \<open>currentPage\<close> and \<open>lastPage\<close> it produces an ordered
  sequence of page numbers, a window of fixed size centered on the current page and
  clipped to \<open>[1, lastPage]\<close>.
\<close>

definition generatePages :: "nat \<Rightarrow> int \<Rightarrow> int \<Rightarrow> int list" where
  "generatePages k cur lst = [max 1 (cur - int k) .. min lst (cur + int k)]"

definition make_view :: "config \<Rightarrow> 'a PageRecord \<Rightarrow> 'a view" where
  "make_view cf p =
     \<lparr>page_record = p,
      pageControls =
        (if pagesControls cf then Some (generatePages (window cf) (currentPage p) (lastPage p))
         else None),
      from_v = (if range_opt cf then Some (getFrom p) else None),
      to_v = (if range_opt cf then Some (getTo p) else None)\<rparr>"

text \<open>
  Modelled from the spec: the PaginatorController and its PageCache, which are not among
  the sources. The state holds the cache (PageKey to PageRecord), the current page,
  the last \<open>lastPage\<close> a fetch has established, the loading flag, and the fetches in
  flight, each with the number of its request and the page it was started for.
  \<open>requests\<close> counts the invocations of the request function; \<open>emitted\<close> is what the
  subscriber of \<^verbatim>\<open>pagination$\<close> has received. \<open>active\<close> is the request whose outcome
  that subscriber awaits: \<^verbatim>\<open>switchMap\<close> keeps the inner subscription of the latest
  \<^verbatim>\<open>getPage\<close> call only.
\<close>

record 'a controller =
  cache :: "int \<rightharpoonup> 'a PageRecord"
  current :: int
  lastKnown :: "int option"
  cfg :: config
  isLoading :: bool
  pending :: "(nat \<times> int) list"
  requests :: nat
  active :: "nat option"
  emitted :: "('a view, error_kind) notification list"

definition create :: "config \<Rightarrow> 'a controller" where
  "create cf =
     \<lparr>cache = Map.empty, current = startWith cf, lastKnown = None, cfg = cf,
      isLoading = False, pending = [], requests = 0, active = None, emitted = []\<rparr>"

text \<open>
  \<open>setPage(n)\<close> clamps \<open>n\<close> if \<open>n < 1\<close> or if it exceeds the last known \<open>lastPage\<close>
  once a fetch has established it; prior to any fetch, any positive \<open>n\<close> is accepted.
\<close>

definition clamp_page :: "int option \<Rightarrow> int \<Rightarrow> int" where
  "clamp_page lk n =
     (if n < 1 then 1
      else case lk of None \<Rightarrow> n | Some l \<Rightarrow> if l < n then l else n)"

definition setPage :: "int \<Rightarrow> 'a controller \<Rightarrow> 'a controller" where
  "setPage n c = c\<lparr>current := clamp_page (lastKnown c) n\<rparr>"

text \<open>
  \<open>getPage(requestFn)\<close> for the current page yields the cached record if present; else
  it invokes \<open>requestFn\<close>, wrapped by the loading gate, and that request becomes the one
  awaited.
\<close>

definition getPage :: "'a controller \<Rightarrow> 'a controller" where
  "getPage c =
     (case cache c (current c) of
        Some p \<Rightarrow> c\<lparr>active := None, emitted := emitted c @ [Next (make_view (cfg c) p)]\<rparr>
      | None \<Rightarrow>
          c\<lparr>isLoading := True, pending := pending c @ [(requests c, current c)],
            requests := Suc (requests c), active := Some (requests c)\<rparr>)"

text \<open>
  A later request for the same page is in flight: the fetch of request \<open>rid\<close> would
  race against a newer one.
\<close>

definition newer_request :: "nat \<Rightarrow> int \<Rightarrow> (nat \<times> int) list \<Rightarrow> bool" where
  "newer_request rid p reqs = list_ex (\<lambda>x. snd x = p \<and> rid < fst x) reqs"

text \<open>
  The fetch of request \<open>rid\<close> settles with a raw response. The loading gate resets the
  flag. A malformed response is not cached. The outcome of the request still awaited
  is normalized, cached under the key of the page it was requested for, and emitted to
  the subscriber. The result of a superseded request is never emitted; its record is
  still cached under its own key, but it must not overwrite a cache entry, and it is
  discarded rather than raced against a newer request for the same page.
\<close>

definition resolve :: "nat \<Rightarrow> 'a raw_response \<Rightarrow> 'a controller \<Rightarrow> 'a controller" where
  "resolve rid raw c =
     (case map_of (pending c) rid of
        None \<Rightarrow> c
      | Some p \<Rightarrow>
          (let c1 = c\<lparr>isLoading := False, pending := filter (\<lambda>x. fst x \<noteq> rid) (pending c)\<rparr>
           in (case normalizeResponse raw of
                 Inl err \<Rightarrow>
                   (if active c = Some rid
                    then c1\<lparr>active := None, emitted := emitted c @ [Error err]\<rparr>
                    else c1)
               | Inr rec \<Rightarrow>
                   (let c2 = c1\<lparr>cache := (cache c)(p \<mapsto> rec), lastKnown := Some (lastPage rec)\<rparr>
                    in (if active c = Some rid
                        then c2\<lparr>active := None,
                               emitted := emitted c @ [Next (make_view (cfg c) rec)]\<rparr>
                        else if cache c p = None
                        then (if newer_request rid p (pending c) then c1 else c2)
                        else c1)))))"

text \<open>The request function's future rejects: a FetchError, and the cache is left untouched.\<close>

definition reject :: "nat \<Rightarrow> 'a controller \<Rightarrow> 'a controller" where
  "reject rid c =
     (case map_of (pending c) rid of
        None \<Rightarrow> c
      | Some p \<Rightarrow>
          let c1 = c\<lparr>isLoading := False, pending := filter (\<lambda>x. fst x \<noteq> rid) (pending c)\<rparr>
          in if active c = Some rid
             then c1\<lparr>active := None, emitted := emitted c @ [Error FetchError]\<rparr>
             else c1)"

text \<open>\<open>clearCache()\<close> removes all entries unconditionally.\<close>

definition clearCache :: "'a controller \<Rightarrow> 'a controller" where
  "clearCache c = c\<lparr>cache := Map.empty\<rparr>"

text \<open>What can happen to a controller, and a run of such events, oldest first.\<close>

datatype 'a event = SetPage int | GetPage | Resolve nat "'a raw_response" | Reject nat | ClearCache

fun step :: "'a event \<Rightarrow> 'a controller \<Rightarrow> 'a controller" where
  "step (SetPage n) c = setPage n c"
| "step GetPage c = getPage c"
| "step (Resolve rid raw) c = resolve rid raw c"
| "step (Reject rid) c = reject rid c"
| "step ClearCache c = clearCache c"

definition run :: "'a event list \<Rightarrow> 'a controller \<Rightarrow> 'a controller" where
  "run es c = fold step es c"




section \<open>Properties of the loading gate\<close>

lemma fold_push_closed: "fold (push sub) sigs (True, w) = (True, w)"
  by (induction sigs) simp_all

lemma run_finalizers_finalize:
  "run_finalizers (rx_finalize cb sub) w = cb (run_finalizers sub w)"
  by (simp add: run_finalizers_def rx_finalize_def)

lemma push_finalize:
  "push (rx_finalize cb sub) sg (False, w) =
     (case push sub sg (False, w) of (c, w1) \<Rightarrow> (c, if c then cb w1 else w1))"
  by (cases "(sub, sg, (False, w))" rule: push.cases)
     (simp_all add: run_finalizers_finalize, simp_all add: rx_finalize_def)

text \<open>
  A subscriber with one more teardown behaves as the subscriber itself, and the
  teardown runs once, after everything else, if the subscription has closed.
\<close>

lemma fold_push_finalize:
  "fold (push (rx_finalize cb sub)) sigs (False, w) =
     (case fold (push sub) sigs (False, w) of (c, w1) \<Rightarrow> (c, if c then cb w1 else w1))"
proof (induction sigs arbitrary: w)
  case Nil
  show ?case by simp
next
  case (Cons sg sigs)
  obtain c w1 where p: "push sub sg (False, w) = (c, w1)"
    by (cases "push sub sg (False, w)")
  show ?case
  proof (cases c)
    case True
    with p show ?thesis by (simp add: push_finalize fold_push_closed)
  next
    case False
    with p Cons.IH [of w1] show ?thesis by (simp add: push_finalize)
  qed
qed

lemma fold_push_recorder:
  "fold (push recorder) sigs (False, w) =
     (exits sigs, w\<lparr>timeline := timeline w @ map Delivered (observed sigs)\<rparr>)"
proof (induction sigs arbitrary: w rule: observed.induct)
  case 1
  show ?case by simp
next
  case (2 v rest)
  show ?case by (simp add: "2.IH" recorder_def [symmetric]) (simp add: recorder_def)
next
  case (3 e rest)
  show ?case by (simp add: fold_push_closed run_finalizers_def recorder_def)
next
  case (4 rest)
  show ?case by (simp add: fold_push_closed run_finalizers_def recorder_def)
next
  case (5 rest)
  show ?case by (simp add: fold_push_closed run_finalizers_def recorder_def)
qed

lemma setLoading_unfold:
  "setLoading st rx_source sub sigs w =
     (case fold (push sub) sigs (False, setLoading_m st True w) of
        (c, w1) \<Rightarrow> if c then setLoading_m st False w1 else w1)"
  by (simp add: setLoading_def rx_defer_def rx_pipe_def rx_source_def fold_push_finalize
      split: prod.splits)

lemma fold_push_exits: "fst (fold (push sub) sigs (False, w)) = exits sigs"
proof (induction sigs arbitrary: w rule: exits.induct)
  case 1
  show ?case by simp
next
  case (2 v rest)
  show ?case by (simp add: "2.IH")
next
  case (3 e rest)
  show ?case by (simp add: fold_push_closed)
next
  case (4 rest)
  show ?case by (simp add: fold_push_closed)
next
  case (5 rest)
  show ?case by (simp add: fold_push_closed)
qed

lemma setLoading_bracket:
  "setLoading st rx_source sub sigs w =
     (if exits sigs
      then setLoading_m st False (rx_source sub sigs (setLoading_m st True w))
      else rx_source sub sigs (setLoading_m st True w))"
proof -
  obtain c w1 where f: "fold (push sub) sigs (False, setLoading_m st True w) = (c, w1)"
    by (cases "fold (push sub) sigs (False, setLoading_m st True w)")
  with fold_push_exits [of sub sigs "setLoading_m st True w"] have "c = exits sigs" by simp
  with f show ?thesis by (simp add: setLoading_unfold rx_source_def)
qed

lemma gate_world:
  "setLoading store rx_source recorder sigs w =
     (if exits sigs
      then w\<lparr>loading := False,
             timeline := timeline w @ SetLoadingCall True # map Delivered (observed sigs)
                           @ [SetLoadingCall False]\<rparr>
      else w\<lparr>loading := True,
             timeline := timeline w @ SetLoadingCall True # map Delivered (observed sigs)\<rparr>)"
  by (simp add: setLoading_unfold fold_push_recorder store_def store_setLoading_def)

lemma delivered_append: "delivered (xs @ ys) = delivered xs @ delivered ys"
  by (induction xs rule: delivered.induct) simp_all

lemma delivered_map_Delivered: "delivered (map Delivered ns) = ns"
  by (induction ns) simp_all

lemma count_list_Delivered: "count_list (map Delivered ns) (SetLoadingCall b) = 0"
  by (induction ns) simp_all

lemma count_list_app: "count_list (xs @ ys) x = count_list xs x + count_list ys x"
  by (induction xs) simp_all

lemma gate_effects_eq:
  "gate_effects sigs w =
     SetLoadingCall True # map Delivered (observed sigs)
       @ (if exits sigs then [SetLoadingCall False] else [])"
  by (simp add: gate_effects_def gate_world)

text \<open>
  C1. Subscribing to the gated observable calls \<open>setLoading(true)\<close> first, before
  anything is delivered, and once. \<open>setLoading(false)\<close> is called exactly once if the
  subscription ends (the source completes, the source fails, or the consumer
  unsubscribes), after everything delivered, and not at all while it has not ended. So
  the flag is true from the start of the work until it ends, and false afterwards.
\<close>

theorem setLoading_flag_lifecycle:
  "timeline (setLoading store rx_source recorder sigs w) = timeline w @ gate_effects sigs w
   \<and> take 1 (gate_effects sigs w) = [SetLoadingCall True]
   \<and> count_list (gate_effects sigs w) (SetLoadingCall True) = 1
   \<and> count_list (gate_effects sigs w) (SetLoadingCall False) = (if exits sigs then 1 else 0)
   \<and> gate_effects sigs w =
       SetLoadingCall True # map Delivered (observed sigs)
         @ (if exits sigs then [SetLoadingCall False] else [])
   \<and> loading (setLoading store rx_source recorder sigs w) = (\<not> exits sigs)"
  by (simp add: gate_effects_eq gate_world count_list_app count_list_Delivered)

theorem setLoading_flag_lifecycle_witness:
  "gate_effects [Src (Next (1::nat)), Src Complete]
       (\<lparr>loading = False, timeline = []\<rparr> :: (nat, string, unit) world)
     = [SetLoadingCall True, Delivered (Next 1), Delivered Complete, SetLoadingCall False]
   \<and> count_list (gate_effects [Src (Next (1::nat)), Src (Error ''boom'')]
       (\<lparr>loading = False, timeline = []\<rparr> :: (nat, string, unit) world)) (SetLoadingCall False) = 1
   \<and> count_list (gate_effects [Src (Next (1::nat)), Unsubscribe, Src (Next 2), Src Complete]
       (\<lparr>loading = False, timeline = []\<rparr> :: (nat, string, unit) world)) (SetLoadingCall False) = 1
   \<and> loading (setLoading store rx_source recorder [Src (Next (1::nat))]
       (\<lparr>loading = False, timeline = []\<rparr> :: (nat, string, unit) world))"
  using setLoading_flag_lifecycle [of "[Src (Next (1::nat)), Src Complete]"
          "\<lparr>loading = False, timeline = []\<rparr> :: (nat, string, unit) world"]
        setLoading_flag_lifecycle [of "[Src (Next (1::nat)), Src (Error ''boom'')]"
          "\<lparr>loading = False, timeline = []\<rparr> :: (nat, string, unit) world"]
        setLoading_flag_lifecycle [of "[Src (Next (1::nat)), Unsubscribe, Src (Next 2), Src Complete]"
          "\<lparr>loading = False, timeline = []\<rparr> :: (nat, string, unit) world"]
        setLoading_flag_lifecycle [of "[Src (Next (1::nat))]"
          "\<lparr>loading = False, timeline = []\<rparr> :: (nat, string, unit) world"]
  by simp

text \<open>
  C8. For every store and every subscriber, a subscription to the gated observable is
  the subscription of that subscriber to the source, with \<open>setLoading(true)\<close> before it
  and \<open>setLoading(false)\<close> after it if it has closed: the gate does nothing else. With
  the store whose \<open>setLoading\<close> sets the flag, the state differs from the one the
  ungated subscription leaves in the loading flag only (and in the timeline, where the
  two calls are put); all other state is as it was.
\<close>

theorem setLoading_frame:
  "setLoading st rx_source sub sigs w =
     (if exits sigs
      then setLoading_m st False (rx_source sub sigs (setLoading_m st True w))
      else rx_source sub sigs (setLoading_m st True w))
   \<and> world.more (setLoading store rx_source recorder sigs w) = world.more w
   \<and> setLoading store rx_source recorder sigs w =
       (rx_source recorder sigs w)
         \<lparr>loading := \<not> exits sigs,
          timeline := timeline (setLoading store rx_source recorder sigs w)\<rparr>"
  apply (intro conjI)
    apply (rule setLoading_bracket)
   apply (simp add: gate_world)
  apply (simp add: gate_world rx_source_def fold_push_recorder)
  done

theorem setLoading_frame_witness:
  "setLoading store rx_source recorder [Src (Next (1::nat)), Unsubscribe]
       (\<lparr>loading = False, timeline = [], \<dots> = (7::nat)\<rparr> :: (nat, string, unit, nat) world_scheme)
     = \<lparr>loading = False,
         timeline = [SetLoadingCall True, Delivered (Next 1), SetLoadingCall False], \<dots> = 7\<rparr>"
  using setLoading_frame [of store recorder "[Src (Next (1::nat)), Unsubscribe]"
          "\<lparr>loading = False, timeline = [], \<dots> = (7::nat)\<rparr> :: (nat, string, unit, nat) world_scheme"]
  by (simp add: store_def store_setLoading_def recorder_def run_finalizers_def rx_source_def)

text \<open>
  C9. The subscriber of the gated observable is handed exactly the notifications the
  subscriber of the source itself would be handed, in the same order and with the same
  end: the values up to the first \<open>Error\<close> or \<open>Complete\<close>, then that notification.
\<close>

theorem setLoading_pass_through:
  "delivered (timeline (setLoading store rx_source recorder sigs w))
     = delivered (timeline (rx_source recorder sigs w))
   \<and> delivered (timeline (rx_source recorder sigs w)) = delivered (timeline w) @ observed sigs"
  by (simp add: gate_world rx_source_def fold_push_recorder delivered_append
      delivered_map_Delivered)

theorem setLoading_pass_through_witness:
  "delivered (timeline (setLoading store rx_source recorder
       [Src (Next (1::nat)), Src (Next 2), Src (Error ''boom''), Src (Next 3)]
       (\<lparr>loading = False, timeline = []\<rparr> :: (nat, string, unit) world)))
     = [Next 1, Next 2, Error ''boom'']"
  using setLoading_pass_through
          [of "[Src (Next (1::nat)), Src (Next 2), Src (Error ''boom''), Src (Next 3)]"
              "\<lparr>loading = False, timeline = []\<rparr> :: (nat, string, unit) world"]
  by simp

section \<open>Properties of \<open>StoriesService.add\<close>\<close>

lemma add_returns:
  "snd (add storiesStore story w) =
     w\<lparr>loading := True, timeline := timeline w @ [SetLoadingCall True]\<rparr>"
  by (simp add: add_def add_from_def storiesStore_def store_setLoading_def)

lemma add_from_returns:
  "snd (add_from upstream storiesStore story w) =
     w\<lparr>loading := True, timeline := timeline w @ [SetLoadingCall True]\<rparr>"
  by (simp add: add_from_def storiesStore_def store_setLoading_def)

lemma add_from_subscribe:
  "fst (add_from rx_source sst story w) sub sigs w1 =
     snd (fold (push (rx_mapTo story
                  (rx_tap (\<lambda>story w. add_m sst story (setLoading_m sst False w)) sub)))
            sigs (False, w1))"
  by (simp add: add_from_def rx_pipe_def rx_source_def)

lemma add_subscribe:
  "fst (add sst story w) sub evs w1 =
     snd (fold (push (rx_mapTo story
                  (rx_tap (\<lambda>story w. add_m sst story (setLoading_m sst False w)) sub)))
            (concat (map timer_signals evs)) (False, w1))"
  by (simp add: add_def add_from_def rx_pipe_def rx_timer_def rx_source_def)

lemma run_finalizers_add_chain:
  "run_finalizers (rx_mapTo story (rx_tap f recorder)) w = w"
  by (simp add: run_finalizers_def rx_mapTo_def rx_tap_def recorder_def)

lemma add_fires:
  "fst (add storiesStore story w) recorder (Fires # evs) (snd (add storiesStore story w)) =
     w\<lparr>loading := False,
       timeline := timeline w @
         [SetLoadingCall True, SetLoadingCall False, AddCall story,
          Delivered (Next story), Delivered Complete]\<rparr>"
  by (simp add: add_subscribe add_returns fold_push_closed run_finalizers_add_chain)
     (simp add: rx_mapTo_def rx_tap_def recorder_def storiesStore_def store_setLoading_def
        store_add_def)

lemma add_cancel:
  "fst (add storiesStore story w) recorder (Cancel # evs) w1 = w1"
  by (simp add: add_subscribe fold_push_closed run_finalizers_add_chain)

lemma add_waiting:
  "fst (add storiesStore story w) recorder [] w1 = w1"
  by (simp add: add_subscribe)

lemma add_from_error:
  "fst (add_from rx_source storiesStore story w) recorder (Src (Error e) # sigs) w1 =
     w1\<lparr>timeline := timeline w1 @ [Delivered (Error e)]\<rparr>"
  by (simp add: add_from_subscribe fold_push_closed run_finalizers_add_chain)
     (simp add: rx_mapTo_def rx_tap_def recorder_def)

text \<open>
  C10. Calling \<open>add\<close> calls \<open>setLoading(true)\<close> at once, whether or not the observable
  it returns is ever subscribed. If that observable is subscribed and the timer fires,
  \<open>setLoading(false)\<close> and \<open>add(story)\<close> are called, before the story and the
  completion are delivered. If the consumer unsubscribes before the timer fires, or the
  timer has not fired yet, nothing more happens and the flag stays true. If an error
  reaches the operators of \<open>add\<close> instead of the timer's value, it is delivered and the
  flag stays true.
\<close>

theorem add_loading_only_reset_on_success:
  "(let r = add storiesStore story w; obs = fst r; w1 = snd r in
      w1 = w\<lparr>loading := True, timeline := timeline w @ [SetLoadingCall True]\<rparr>
      \<and> obs recorder (Fires # evs) w1 =
            w\<lparr>loading := False,
              timeline := timeline w @
                [SetLoadingCall True, SetLoadingCall False, AddCall story,
                 Delivered (Next story), Delivered Complete]\<rparr>
      \<and> obs recorder (Cancel # evs) w1 = w1
      \<and> obs recorder [] w1 = w1)
   \<and> (let r = add_from rx_source storiesStore story w; obs = fst r; w1 = snd r in
      obs recorder (Src (Error e) # sigs) w1 =
        w\<lparr>loading := True,
          timeline := timeline w @ [SetLoadingCall True, Delivered (Error e)]\<rparr>)"
  unfolding Let_def
  by (intro conjI add_returns add_fires add_cancel add_waiting)
     (simp add: add_from_error add_from_returns)

theorem add_loading_only_reset_on_success_witness:
  "(let r = add storiesStore ''tale''
              (\<lparr>loading = False, timeline = []\<rparr> :: (string, unit, string) world)
    in fst r recorder [Fires] (snd r) =
         \<lparr>loading = False,
          timeline = [SetLoadingCall True, SetLoadingCall False, AddCall ''tale'',
                      Delivered (Next ''tale''), Delivered Complete]\<rparr>
       \<and> fst r recorder [Cancel] (snd r) = snd r
       \<and> snd r = \<lparr>loading = True, timeline = [SetLoadingCall True]\<rparr>)"
  using add_loading_only_reset_on_success [of "''tale''"
          "\<lparr>loading = False, timeline = []\<rparr> :: (string, unit, string) world" "[]"
          "()" "[] :: (nat, unit) signal list"]
  unfolding Let_def by (elim conjE) simp

section \<open>Properties of the response normalizer\<close>

lemma normalize_valid:
  "raw_data raw = Some d \<Longrightarrow> 1 \<le> raw_perPage raw \<Longrightarrow> 1 \<le> raw_lastPage raw \<Longrightarrow>
   normalizeResponse raw =
     Inr \<lparr>data = d, perPage = raw_perPage raw, lastPage = raw_lastPage raw,
          currentPage = raw_currentPage raw,
          total_n = (case raw_total raw of
                       None \<Rightarrow> raw_perPage raw * raw_lastPage raw
                     | Some t \<Rightarrow> t)\<rparr>"
  by (simp add: normalizeResponse_def)

lemma normalize_Inr_total:
  "normalizeResponse raw = Inr p \<Longrightarrow> raw_total raw = None \<Longrightarrow>
   total_n p = raw_perPage raw * raw_lastPage raw"
  by (auto simp: normalizeResponse_def split: option.splits if_splits)

lemma normalize_invalid:
  "raw_data raw = None \<or> raw_perPage raw < 1 \<or> raw_lastPage raw < 1 \<Longrightarrow>
   normalizeResponse raw = Inl ValidationError"
  by (auto simp: normalizeResponse_def split: option.splits)

text \<open>
  C4. Whenever a raw response without \<open>total\<close> is normalized to a PageRecord, the
  record's total is \<open>perPage * lastPage\<close>; a response without \<open>total\<close> that has its
  data and positive \<open>perPage\<close> and \<open>lastPage\<close> is normalized to such a record. The
  response \<open>{perPage:10, lastPage:10, currentPage:3, data:[...]}\<close> yields total 100.
\<close>

theorem normalize_total_default:
  "(raw_total raw = None \<and> normalizeResponse raw = Inr p
      \<longrightarrow> total_n p = raw_perPage raw * raw_lastPage raw)
   \<and> (raw_total raw = None \<and> raw_data raw = Some d \<and> 1 \<le> raw_perPage raw \<and> 1 \<le> raw_lastPage raw
      \<longrightarrow> normalizeResponse raw =
            Inr \<lparr>data = d, perPage = raw_perPage raw, lastPage = raw_lastPage raw,
                 currentPage = raw_currentPage raw,
                 total_n = raw_perPage raw * raw_lastPage raw\<rparr>)
   \<and> normalizeResponse \<lparr>raw_data = Some d, raw_perPage = 10, raw_lastPage = 10,
                         raw_currentPage = 3, raw_total = None\<rparr>
       = Inr \<lparr>data = d, perPage = 10, lastPage = 10, currentPage = 3, total_n = 100\<rparr>"
  by (auto simp: normalize_Inr_total normalize_valid normalizeResponse_def)

theorem normalize_total_default_witness:
  "normalizeResponse \<lparr>raw_data = Some [''ann'', ''bob''], raw_perPage = 2, raw_lastPage = 7,
                      raw_currentPage = 1, raw_total = None\<rparr>
     = Inr \<lparr>data = [''ann'', ''bob''], perPage = 2, lastPage = 7, currentPage = 1, total_n = 14\<rparr>"
  using normalize_total_default
          [of "\<lparr>raw_data = Some [''ann'', ''bob''], raw_perPage = 2, raw_lastPage = 7,
                raw_currentPage = 1, raw_total = None\<rparr>"
              "\<lparr>data = [''ann'', ''bob''], perPage = 2, lastPage = 7, currentPage = 1,
                total_n = 14\<rparr>"
              "[''ann'', ''bob'']"]
  by simp

section \<open>Properties of the pagination view\<close>

lemma cfg_step: "cfg (step e c) = cfg c"
  by (cases e)
     (simp_all add: setPage_def getPage_def resolve_def reject_def clearCache_def Let_def
        split: option.splits sum.splits)


lemma emitted_step:
  "Next v \<in> set (emitted (step e c)) \<Longrightarrow>
   Next v \<in> set (emitted c) \<or> (\<exists>p. v = make_view (cfg c) p)"
  by (cases e)
     (auto simp: setPage_def getPage_def resolve_def reject_def clearCache_def Let_def
        split: option.splits sum.splits if_splits)

lemma emitted_run:
  "Next v \<in> set (emitted (run es c)) \<Longrightarrow>
   Next v \<in> set (emitted c) \<or> (\<exists>p. v = make_view (cfg c) p)"
proof (induction es arbitrary: c)
  case Nil
  then show ?case by (simp add: run_def)
next
  case (Cons e es)
  from Cons.prems have "Next v \<in> set (emitted (run es (step e c)))" by (simp add: run_def)
  from Cons.IH [OF this] show ?case
    using emitted_step [of v e c] by (auto simp: cfg_step)
qed

lemma make_view_range:
  "range_opt cf \<Longrightarrow>
   from_v (make_view cf p)
     = Some (if total_n p = 0 then 0 else (currentPage p - 1) * perPage p + 1)
   \<and> to_v (make_view cf p) = Some (min (currentPage p * perPage p) (total_n p))
   \<and> page_record (make_view cf p) = p"
  by (simp add: make_view_def getFrom_def getTo_def)

text \<open>
  C5. With range computation enabled, every view a controller emits, whatever happens
  to the controller, has \<open>from = (currentPage - 1) * perPage + 1\<close>, or 0 when the
  total is 0, and \<open>to = min(currentPage * perPage, total)\<close>.
\<close>

theorem emitted_range:
  "range_opt cf \<Longrightarrow> Next v \<in> set (emitted (run es (create cf))) \<Longrightarrow>
   from_v v = Some (if total_n (page_record v) = 0 then 0
                    else (currentPage (page_record v) - 1) * perPage (page_record v) + 1)
   \<and> to_v v = Some (min (currentPage (page_record v) * perPage (page_record v))
                      (total_n (page_record v)))"
proof -
  assume r: "range_opt cf" and m: "Next v \<in> set (emitted (run es (create cf)))"
  from emitted_run [OF m] obtain p where "v = make_view cf p"
    by (auto simp: create_def)
  with make_view_range [OF r, of p] show ?thesis by simp
qed

theorem emitted_range_witness:
  "Next \<lparr>page_record = \<lparr>data = [''a'', ''b''], perPage = 10, lastPage = 10, currentPage = 10,
                         total_n = 95\<rparr>,
         pageControls = None, from_v = Some 91, to_v = Some 95\<rparr>
     \<in> set (emitted (run [GetPage, Resolve 0 \<lparr>raw_data = Some [''a'', ''b''], raw_perPage = 10,
                raw_lastPage = 10, raw_currentPage = 10, raw_total = Some 95\<rparr>]
            (create \<lparr>pagesControls = False, range_opt = True, startWith = 10, window = 2\<rparr>)))
   \<and> Some (91::int) = Some ((10 - 1) * 10 + 1)
   \<and> Some (95::int) = Some (min (10 * 10) 95)"
proof -
  have r: "range_opt \<lparr>pagesControls = False, range_opt = True, startWith = 10, window = 2\<rparr>"
    by simp
  have m: "Next \<lparr>page_record = \<lparr>data = [''a'', ''b''], perPage = 10, lastPage = 10,
                                 currentPage = 10, total_n = 95\<rparr>,
         pageControls = None, from_v = Some 91, to_v = Some 95\<rparr>
     \<in> set (emitted (run [GetPage, Resolve 0 \<lparr>raw_data = Some [''a'', ''b''], raw_perPage = 10,
                raw_lastPage = 10, raw_currentPage = 10, raw_total = Some 95\<rparr>]
            (create \<lparr>pagesControls = False, range_opt = True, startWith = 10, window = 2\<rparr>)))"
    by (simp add: run_def create_def getPage_def resolve_def normalizeResponse_def make_view_def
        getFrom_def getTo_def)
  from emitted_range [OF r m] m show ?thesis by simp
qed

lemma generatePages_bounds: "x \<in> set (generatePages k cur lst) \<Longrightarrow> 1 \<le> x \<and> x \<le> lst"
  by (auto simp: generatePages_def)

lemma generatePages_current:
  "1 \<le> cur \<Longrightarrow> cur \<le> lst \<Longrightarrow> cur \<in> set (generatePages k cur lst)"
  by (auto simp: generatePages_def)

text \<open>
  With current page 50 and last page 10 (a start page or a \<open>setPage\<close> before any fetch
  is not clamped) the page controls cannot both contain the current page and stay
  within \<open>[1, lastPage]\<close>; the window, being clipped, is empty.
\<close>

theorem pageControls_counterexample:
  "\<not> (50 \<in> set (generatePages 2 50 10) \<and> set (generatePages 2 50 10) \<subseteq> {1..10})"
  by (simp add: generatePages_def)

text \<open>
  C6, amended. Whenever \<open>lastPage\<close> is known, the computed page controls never contain
  a value outside \<open>[1, lastPage]\<close>, and they contain \<open>currentPage\<close> whenever
  \<open>1 \<le> currentPage \<le> lastPage\<close>.
\<close>

theorem pageControls_window:
  "(1 \<le> currentPage p \<and> currentPage p \<le> lastPage p \<and> pagesControls cf
      \<longrightarrow> (\<exists>cs. pageControls (make_view cf p) = Some cs \<and> currentPage p \<in> set cs))
   \<and> (pagesControls cf
      \<longrightarrow> (\<exists>cs. pageControls (make_view cf p) = Some cs
                \<and> (\<forall>x \<in> set cs. 1 \<le> x \<and> x \<le> lastPage p)))
   \<and> (1 \<le> cur \<and> cur \<le> lst \<longrightarrow> cur \<in> set (generatePages k cur lst))
   \<and> (\<forall>x \<in> set (generatePages k cur lst). 1 \<le> x \<and> x \<le> lst)"
  by (simp add: make_view_def generatePages_bounds generatePages_current)

theorem pageControls_window_witness:
  "pageControls (make_view \<lparr>pagesControls = True, range_opt = False, startWith = 1, window = 2\<rparr>
       \<lparr>data = [''x''], perPage = 1, lastPage = 10, currentPage = 9, total_n = 10\<rparr>)
     = Some [7, 8, 9, 10]
   \<and> (9::int) \<in> set [7, 8, 9, 10]"
  using pageControls_window
          [of "\<lparr>data = [''x''], perPage = 1, lastPage = 10, currentPage = 9, total_n = 10\<rparr>"
              "\<lparr>pagesControls = True, range_opt = False, startWith = 1, window = 2\<rparr>" 9 10 2]
  by (simp add: make_view_def generatePages_def upto.simps)

section \<open>Properties of the controller\<close>

lemma resolve_invalid_cache:
  "normalizeResponse raw = Inl err \<Longrightarrow> cache (resolve rid raw c) = cache c"
  by (simp add: resolve_def Let_def split: option.splits)

text \<open>
  C7. A raw response whose data is absent, or whose \<open>perPage\<close> or \<open>lastPage\<close> is not
  positive, fails normalization with a ValidationError. When the fetch of a request
  settles with such a response the cache is left as it was, and if the request is the
  one its subscriber still awaits, the error is what the subscriber receives.
\<close>

theorem validation_error_surfaced_not_cached:
  "raw_data raw = None \<or> raw_perPage raw < 1 \<or> raw_lastPage raw < 1 \<Longrightarrow>
   normalizeResponse raw = Inl ValidationError
   \<and> cache (resolve rid raw c) = cache c
   \<and> (map_of (pending c) rid = Some p \<and> active c = Some rid
        \<longrightarrow> emitted (resolve rid raw c) = emitted c @ [Error ValidationError])"
  by (auto simp: normalize_invalid resolve_invalid_cache)
     (simp_all add: resolve_def Let_def normalize_invalid)

theorem validation_error_surfaced_not_cached_witness:
  "normalizeResponse (\<lparr>raw_data = None, raw_perPage = 10, raw_lastPage = 10, raw_currentPage = 3,
        raw_total = None\<rparr> :: string raw_response) = Inl ValidationError
   \<and> emitted (resolve 0 (\<lparr>raw_data = None, raw_perPage = 10, raw_lastPage = 10,
        raw_currentPage = 3, raw_total = None\<rparr> :: string raw_response)
        (getPage (create \<lparr>pagesControls = True, range_opt = True, startWith = 3, window = 2\<rparr>)))
      = [Error ValidationError]
   \<and> cache (resolve 0 (\<lparr>raw_data = None, raw_perPage = 10, raw_lastPage = 10,
        raw_currentPage = 3, raw_total = None\<rparr> :: string raw_response)
        (getPage (create \<lparr>pagesControls = True, range_opt = True, startWith = 3, window = 2\<rparr>))) 3
      = None"
  using validation_error_surfaced_not_cached
    [of "\<lparr>raw_data = None, raw_perPage = 10, raw_lastPage = 10, raw_currentPage = 3,
          raw_total = None\<rparr> :: string raw_response" 0
        "getPage (create \<lparr>pagesControls = True, range_opt = True, startWith = 3, window = 2\<rparr>)" 3]
  by (simp add: getPage_def create_def)






































end
